theory Spec2Isabelle
  imports Complex_Main
begin

section \<open>HealthSync: wellness scores, energy level, habit streaks and rewards\<close>

text \<open>
  A shallow embedding of the three helper functions at the end of \<^verbatim>\<open>main.py\<close>:
  \<^verbatim>\<open>update_energy_level\<close>, \<^verbatim>\<open>update_habit_streak\<close> and
  \<^verbatim>\<open>award_for_habit_completion\<close>, together with the tables of
  \<^verbatim>\<open>database.py\<close> they read and write.

  A calendar date is the number of its day, so that \<^verbatim>\<open>d - timedelta(days=i)\<close> is
  \<open>d - i\<close>; the date strings the functions receive are taken to be well formed. The value
  of a Python \<^verbatim>\<open>float\<close> is an exact rational: binary rounding is not modelled.
\<close>

subsection \<open>Python numbers and exceptions\<close>

text \<open>
  The database driver returns an \<^verbatim>\<open>INTEGER\<close> column as a Python \<^verbatim>\<open>int\<close> and a
  \<^verbatim>\<open>DECIMAL\<close> column as a \<^verbatim>\<open>Decimal\<close>; a true division of two \<^verbatim>\<open>int\<close>s is a
  \<^verbatim>\<open>float\<close>. The three kinds matter: Python adds an \<^verbatim>\<open>int\<close> to either of the other
  two, and refuses to add a \<^verbatim>\<open>float\<close> and a \<^verbatim>\<open>Decimal\<close>.
\<close>

datatype pynum = PyInt int | PyFloat rat | PyDecimal rat

datatype error = TypeError | NumericValueOutOfRange

fun py_value :: "pynum \<Rightarrow> rat" where
  "py_value (PyInt i) = of_int i"
| "py_value (PyFloat x) = x"
| "py_value (PyDecimal x) = x"

fun py_add :: "pynum \<Rightarrow> pynum \<Rightarrow> error + pynum" where
  "py_add (PyInt a) (PyInt b) = Inr (PyInt (a + b))"
| "py_add (PyInt a) (PyFloat b) = Inr (PyFloat (of_int a + b))"
| "py_add (PyFloat a) (PyInt b) = Inr (PyFloat (a + of_int b))"
| "py_add (PyFloat a) (PyFloat b) = Inr (PyFloat (a + b))"
| "py_add (PyInt a) (PyDecimal b) = Inr (PyDecimal (of_int a + b))"
| "py_add (PyDecimal a) (PyInt b) = Inr (PyDecimal (a + of_int b))"
| "py_add (PyDecimal a) (PyDecimal b) = Inr (PyDecimal (a + b))"
| "py_add (PyFloat a) (PyDecimal b) = Inl TypeError"
| "py_add (PyDecimal a) (PyFloat b) = Inl TypeError"

text \<open>The next term of a sum \<^verbatim>\<open>a + b + c\<close>: an exception of \<^verbatim>\<open>a + b\<close> ends it.\<close>

definition then_add :: "error + pynum \<Rightarrow> pynum \<Rightarrow> error + pynum" where
  "then_add r y = (case r of Inl e \<Rightarrow> Inl e | Inr x \<Rightarrow> py_add x y)"

text \<open>\<^verbatim>\<open>min(a, b)\<close> is \<^verbatim>\<open>b\<close> when \<^verbatim>\<open>b < a\<close> and \<^verbatim>\<open>a\<close> otherwise, each with its own kind.\<close>

definition py_min :: "pynum \<Rightarrow> pynum \<Rightarrow> pynum" where
  "py_min a b = (if py_value b < py_value a then b else a)"

subsection \<open>The row fetched by \<^verbatim>\<open>update_energy_level\<close>\<close>

text \<open>
  The dictionary \<^verbatim>\<open>data\<close>: the seven columns of the first \<^verbatim>\<open>SELECT\<close>, after
  \<^verbatim>\<open>COALESCE\<close>, under the names the query gives them. \<open>steps\<close> and \<open>water\<close> are
  \<^verbatim>\<open>int\<close>s, \<open>sleep\<close> is the value of a \<^verbatim>\<open>Decimal\<close>.
\<close>

record daily_facts =
  steps :: int
  water :: int
  sleep :: rat
  breakfast :: bool
  lunch :: bool
  dinner :: bool
  mood :: string

subsection \<open>The score formula\<close>

text \<open>\<^verbatim>\<open>min(data['steps'] / 10000 * 25, 25) if data['steps'] > 0 else 0\<close>\<close>

definition steps_score :: "daily_facts \<Rightarrow> pynum" where
  "steps_score data =
     (if steps data > 0 then py_min (PyFloat (of_int (steps data) / 10000 * 25)) (PyInt 25)
      else PyInt 0)"

definition water_score :: "daily_facts \<Rightarrow> pynum" where
  "water_score data =
     (if water data > 0 then py_min (PyFloat (of_int (water data) / 2000 * 25)) (PyInt 25)
      else PyInt 0)"

text \<open>A \<^verbatim>\<open>Decimal\<close> divided and multiplied by an \<^verbatim>\<open>int\<close> is a \<^verbatim>\<open>Decimal\<close>.\<close>

definition sleep_score :: "daily_facts \<Rightarrow> pynum" where
  "sleep_score data =
     (if sleep data > 0 then py_min (PyDecimal (sleep data / 8 * 25)) (PyInt 25)
      else PyInt 0)"

text \<open>Python's \<^verbatim>\<open>sum\<close> over booleans counts \<^verbatim>\<open>True\<close> as 1.\<close>

definition meals_count :: "daily_facts \<Rightarrow> nat" where
  "meals_count data =
     sum_list (map of_bool [breakfast data, lunch data, dinner data])"

definition meals_score :: "daily_facts \<Rightarrow> pynum" where
  "meals_score data =
     (if meals_count data > 0 then PyFloat ((of_nat (meals_count data) / 3) * 25)
      else PyInt 0)"

definition mood_scores :: "string \<rightharpoonup> int" where
  "mood_scores =
     map_of [(''excellent'', 25), (''good'', 20), (''neutral'', 15),
             (''bad'', 5), (''terrible'', 0)]"

text \<open>\<^verbatim>\<open>mood_scores.get(data['mood'], 15)\<close>\<close>

definition mood_score :: "daily_facts \<Rightarrow> pynum" where
  "mood_score data =
     PyInt (case mood_scores (mood data) of Some v \<Rightarrow> v | None \<Rightarrow> 15)"

text \<open>
  \<^verbatim>\<open>steps_score + water_score + sleep_score + meals_score + mood_score\<close>, from left to
  right; the sum raises \<^verbatim>\<open>TypeError\<close> when a \<^verbatim>\<open>float\<close> meets a \<^verbatim>\<open>Decimal\<close>.
\<close>

definition overall_balance :: "daily_facts \<Rightarrow> error + pynum" where
  "overall_balance data =
     then_add (then_add (then_add
       (py_add (steps_score data) (water_score data))
       (sleep_score data)) (meals_score data)) (mood_score data)"

subsection \<open>The tables\<close>

text \<open>
  Only the columns the three functions touch. The input columns of \<^verbatim>\<open>daily_data\<close> may
  hold \<^verbatim>\<open>NULL\<close> (\<open>None\<close>). The score, coin, energy and streak columns have a default
  and no statement of the program stores \<^verbatim>\<open>NULL\<close> in them, so they hold a value.
\<close>

record daily_data_row =
  dd_user_id :: int
  dd_date :: int
  dd_steps :: "int option"
  dd_water_ml :: "int option"
  dd_sleep_hours :: "rat option"
  dd_breakfast :: "bool option"
  dd_lunch :: "bool option"
  dd_dinner :: "bool option"
  dd_mood :: "string option"
  dd_activity_score :: rat
  dd_nutrition_score :: rat
  dd_recovery_score :: rat
  dd_mental_score :: rat
  dd_overall_balance :: rat

record users_row =
  u_id :: int
  u_sync_coins :: int
  u_energy_level :: rat

record user_habits_row =
  uh_id :: int
  uh_current_streak :: int
  uh_longest_streak :: int

record habit_completions_row =
  hc_habit_id :: int
  hc_date :: int
  hc_is_completed :: bool

record database =
  daily_data :: "daily_data_row list"
  users :: "users_row list"
  user_habits :: "user_habits_row list"
  habit_completions :: "habit_completions_row list"

subsection \<open>SQL building blocks\<close>

definition COALESCE :: "'a option \<Rightarrow> 'a \<Rightarrow> 'a" where
  "COALESCE v d = (case v of Some x \<Rightarrow> x | None \<Rightarrow> d)"

text \<open>\<^verbatim>\<open>AVG\<close> of no rows is \<^verbatim>\<open>NULL\<close>.\<close>

definition AVG :: "rat list \<Rightarrow> rat option" where
  "AVG xs = (if xs = [] then None else Some (sum_list xs / of_nat (length xs)))"

text \<open>\<^verbatim>\<open>UPDATE t SET ... WHERE p\<close>: every row that satisfies \<open>p\<close> is rewritten.\<close>

definition UPDATE :: "('r \<Rightarrow> bool) \<Rightarrow> ('r \<Rightarrow> 'r) \<Rightarrow> 'r list \<Rightarrow> 'r list" where
  "UPDATE p f rows = map (\<lambda>r. if p r then f r else r) rows"

text \<open>
  A value assigned to a \<^verbatim>\<open>DECIMAL(5,2)\<close> column is rounded to two decimals, a half
  away from zero. The values assigned here are below 1000, the limit of the column.
\<close>

definition numeric_5_2 :: "rat \<Rightarrow> rat" where
  "numeric_5_2 x =
     (if 0 \<le> x then of_int \<lfloor>x * 100 + 1 / 2\<rfloor> / 100
      else - (of_int \<lfloor>- x * 100 + 1 / 2\<rfloor> / 100))"

text \<open>The largest value of an \<^verbatim>\<open>INTEGER\<close> column; beyond it the statement fails.\<close>

definition INTEGER_max :: int where
  "INTEGER_max = 2147483647"

subsection \<open>\<^verbatim>\<open>update_energy_level\<close>\<close>

text \<open>The select list of the first query, on one row.\<close>

definition facts_of_row :: "daily_data_row \<Rightarrow> daily_facts" where
  "facts_of_row r = \<lparr>
     steps = COALESCE (dd_steps r) 0,
     water = COALESCE (dd_water_ml r) 0,
     sleep = COALESCE (dd_sleep_hours r) 0,
     breakfast = COALESCE (dd_breakfast r) False,
     lunch = COALESCE (dd_lunch r) False,
     dinner = COALESCE (dd_dinner r) False,
     mood = COALESCE (dd_mood r) ''neutral'' \<rparr>"

text \<open>The \<^verbatim>\<open>WHERE user_id = %s AND date = %s\<close> of the first query and of the first update.\<close>

definition is_day :: "int \<Rightarrow> int \<Rightarrow> daily_data_row \<Rightarrow> bool" where
  "is_day user_id date_str r \<longleftrightarrow> dd_user_id r = user_id \<and> dd_date r = date_str"

text \<open>The first query and \<^verbatim>\<open>fetchone\<close>: the first matching row, or nothing.\<close>

definition select_daily_facts :: "int \<Rightarrow> int \<Rightarrow> database \<Rightarrow> daily_facts option" where
  "select_daily_facts user_id date_str db =
     map_option facts_of_row (find (is_day user_id date_str) (daily_data db))"

text \<open>
  The first \<^verbatim>\<open>UPDATE\<close>, with its parameters
  \<^verbatim>\<open>(steps_score, meals_score, sleep_score, mood_score, overall_balance)\<close>: each is stored
  in a \<^verbatim>\<open>DECIMAL(5,2)\<close> column.
\<close>

definition set_scores :: "daily_facts \<Rightarrow> pynum \<Rightarrow> daily_data_row \<Rightarrow> daily_data_row" where
  "set_scores data balance r =
     r\<lparr> dd_activity_score := numeric_5_2 (py_value (steps_score data)),
        dd_nutrition_score := numeric_5_2 (py_value (meals_score data)),
        dd_recovery_score := numeric_5_2 (py_value (sleep_score data)),
        dd_mental_score := numeric_5_2 (py_value (mood_score data)),
        dd_overall_balance := numeric_5_2 (py_value balance) \<rparr>"

text \<open>
  The second query:
  \<^verbatim>\<open>SELECT AVG(overall_balance) ... WHERE user_id = %s AND date >= %s::date - INTERVAL '7 days'\<close>
\<close>

definition in_window :: "int \<Rightarrow> int \<Rightarrow> daily_data_row \<Rightarrow> bool" where
  "in_window user_id date_str r \<longleftrightarrow> dd_user_id r = user_id \<and> dd_date r \<ge> date_str - 7"

definition avg_energy :: "int \<Rightarrow> int \<Rightarrow> daily_data_row list \<Rightarrow> rat option" where
  "avg_energy user_id date_str rows =
     AVG (map dd_overall_balance (filter (in_window user_id date_str) rows))"

text \<open>
  \<^verbatim>\<open>result['avg_energy'] if result and result['avg_energy'] else 50.0\<close>: the aggregate
  query always returns one row, and a Python number is false when it is zero. The
  result is the value that \<^verbatim>\<open>float(new_energy)\<close> passes on.
\<close>

definition new_energy :: "rat option \<Rightarrow> rat" where
  "new_energy result =
     (case result of None \<Rightarrow> 50 | Some a \<Rightarrow> if a \<noteq> 0 then a else 50)"

text \<open>
  The function. Without a record of the day it returns at once. The sum of the scores
  comes before the first \<^verbatim>\<open>UPDATE\<close>, so a \<^verbatim>\<open>TypeError\<close> leaves the database as it
  was. The energy level is stored in a \<^verbatim>\<open>DECIMAL(5,2)\<close> column.
\<close>

definition update_energy_level :: "int \<Rightarrow> int \<Rightarrow> database \<Rightarrow> error + database" where
  "update_energy_level user_id date_str db =
     (case select_daily_facts user_id date_str db of
        None \<Rightarrow> Inr db
      | Some data \<Rightarrow>
          (case overall_balance data of
             Inl e \<Rightarrow> Inl e
           | Inr balance \<Rightarrow>
               let rows = UPDATE (is_day user_id date_str) (set_scores data balance)
                            (daily_data db);
                   e = new_energy (avg_energy user_id date_str rows)
               in Inr (db\<lparr> daily_data := rows,
                           users := UPDATE (\<lambda>u. u_id u = user_id)
                                      (\<lambda>u. u\<lparr>u_energy_level := numeric_5_2 e\<rparr>)
                                      (users db) \<rparr>)))"

subsection \<open>\<^verbatim>\<open>update_habit_streak\<close>\<close>

text \<open>
  \<^verbatim>\<open>SELECT date ... WHERE habit_id = %s AND is_completed = TRUE ORDER BY date DESC LIMIT 7\<close>
\<close>

definition select_completions :: "int \<Rightarrow> database \<Rightarrow> int list" where
  "select_completions habit_id db =
     take 7 (rev (sort (map hc_date
       (filter (\<lambda>c. hc_habit_id c = habit_id \<and> hc_is_completed c) (habit_completions db)))))"

text \<open>
  The \<^verbatim>\<open>for i, comp_date in enumerate(completions)\<close> loop, with its \<^verbatim>\<open>break\<close>: the
  arguments are the anchor date, the index \<open>i\<close>, the dates still to visit and the
  counter.
\<close>

fun streak_loop :: "int \<Rightarrow> nat \<Rightarrow> int list \<Rightarrow> nat \<Rightarrow> nat" where
  "streak_loop current_date i [] current_streak = current_streak"
| "streak_loop current_date i (comp_date # completions) current_streak =
     (if comp_date = current_date - int i
      then streak_loop current_date (Suc i) completions (Suc current_streak)
      else current_streak)"

definition current_streak :: "int \<Rightarrow> int list \<Rightarrow> nat" where
  "current_streak current_date completions = streak_loop current_date 0 completions 0"

text \<open>
  \<^verbatim>\<open>SET current_streak = %s, longest_streak = GREATEST(longest_streak, %s)\<close>
\<close>

definition set_streak :: "nat \<Rightarrow> user_habits_row \<Rightarrow> user_habits_row" where
  "set_streak c h =
     h\<lparr> uh_current_streak := int c,
        uh_longest_streak := max (uh_longest_streak h) (int c) \<rparr>"

definition update_habit_streak :: "int \<Rightarrow> int \<Rightarrow> database \<Rightarrow> database" where
  "update_habit_streak habit_id date_str db =
     db\<lparr> user_habits :=
          UPDATE (\<lambda>h. uh_id h = habit_id)
            (set_streak (current_streak date_str (select_completions habit_id db)))
            (user_habits db) \<rparr>"

subsection \<open>\<^verbatim>\<open>award_for_habit_completion\<close>\<close>

text \<open>
  \<^verbatim>\<open>SET sync_coins = sync_coins + 2\<close> on an \<^verbatim>\<open>INTEGER\<close> column: the statement
  fails with "integer out of range" when a sum is beyond the largest value, and nothing
  is written.
\<close>

definition add_coins :: "users_row \<Rightarrow> users_row" where
  "add_coins u = u\<lparr>u_sync_coins := u_sync_coins u + 2\<rparr>"

definition coins_overflow :: "int \<Rightarrow> users_row \<Rightarrow> bool" where
  "coins_overflow user_id u \<longleftrightarrow> u_id u = user_id \<and> u_sync_coins u + 2 > INTEGER_max"

text \<open>\<^verbatim>\<open>SET energy_level = LEAST(energy_level + 3, 100)\<close>\<close>

definition add_energy :: "users_row \<Rightarrow> users_row" where
  "add_energy u = u\<lparr>u_energy_level := min (u_energy_level u + 3) 100\<rparr>"

definition award_for_habit_completion :: "int \<Rightarrow> int \<Rightarrow> database \<Rightarrow> error + database" where
  "award_for_habit_completion user_id habit_id db =
     (if list_ex (coins_overflow user_id) (users db) then Inl NumericValueOutOfRange
      else
        let db1 = db\<lparr>users := UPDATE (\<lambda>u. u_id u = user_id) add_coins (users db)\<rparr>
        in Inr (db1\<lparr>users := UPDATE (\<lambda>u. u_id u = user_id) add_energy (users db1)\<rparr>))"

subsection \<open>The specification's own words\<close>

text \<open>
  Two definitions that follow the specification rather than the code, for comparison.
  The energy level of the specification is the mean of the balances of the seven days
  that end at the written date, and 50 when there is none.
\<close>

definition spec_in_window :: "int \<Rightarrow> int \<Rightarrow> daily_data_row \<Rightarrow> bool" where
  "spec_in_window user_id date_str r \<longleftrightarrow>
     dd_user_id r = user_id \<and> date_str - 7 < dd_date r \<and> dd_date r \<le> date_str"

definition spec_computeEnergyLevel :: "rat list \<Rightarrow> rat" where
  "spec_computeEnergyLevel history =
     (if history = [] then 50 else sum_list history / of_nat (length history))"

definition spec_energy :: "int \<Rightarrow> int \<Rightarrow> daily_data_row list \<Rightarrow> rat" where
  "spec_energy user_id date_str rows =
     spec_computeEnergyLevel
       (map dd_overall_balance (filter (spec_in_window user_id date_str) rows))"

text \<open>
  The streak of the specification: the number of leading positions \<open>i\<close> whose date is
  \<open>anchorDate - i\<close>.
\<close>

definition spec_computeStreak :: "int list \<Rightarrow> int \<Rightarrow> nat" where
  "spec_computeStreak completions anchorDate =
     length (takeWhile (\<lambda>(i, c). c = anchorDate - int i) (enumerate 0 completions))"

subsection \<open>Concrete days and databases\<close>

text \<open>
  The row that \<^verbatim>\<open>INSERT INTO daily_data (user_id, date)\<close> creates: every other column at
  the default of the schema.
\<close>

definition empty_record :: "int \<Rightarrow> int \<Rightarrow> daily_data_row" where
  "empty_record user_id target_date = \<lparr>
     dd_user_id = user_id, dd_date = target_date,
     dd_steps = Some 0, dd_water_ml = Some 0, dd_sleep_hours = Some 0,
     dd_breakfast = Some False, dd_lunch = Some False, dd_dinner = Some False,
     dd_mood = None,
     dd_activity_score = 0, dd_nutrition_score = 0, dd_recovery_score = 0,
     dd_mental_score = 0, dd_overall_balance = 0 \<rparr>"

text \<open>A database with user 1 alone, with no coins and the given energy level and days.\<close>

definition user_db :: "rat \<Rightarrow> daily_data_row list \<Rightarrow> database" where
  "user_db energy rows = \<lparr> daily_data = rows,
     users = [\<lparr>u_id = 1, u_sync_coins = 0, u_energy_level = energy\<rparr>],
     user_habits = [], habit_completions = [] \<rparr>"

text \<open>The scenario of the specification, as the query returns it and as a record of day 10.\<close>

definition scenario :: daily_facts where
  "scenario = \<lparr> steps = 5000, water = 1000, sleep = 6, breakfast = True, lunch = True,
     dinner = False, mood = ''good'' \<rparr>"

definition scenario_day :: daily_data_row where
  "scenario_day = (empty_record 1 10)\<lparr> dd_steps := Some 5000, dd_water_ml := Some 1000,
     dd_sleep_hours := Some 6, dd_breakfast := Some True, dd_lunch := Some True,
     dd_mood := Some ''good'' \<rparr>"

text \<open>A day with every input at its target and nine hours of sleep.\<close>

definition full_day :: daily_data_row where
  "full_day = (empty_record 1 10)\<lparr> dd_steps := Some 10000, dd_water_ml := Some 2000,
     dd_sleep_hours := Some 9, dd_breakfast := Some True, dd_lunch := Some True,
     dd_dinner := Some True, dd_mood := Some ''excellent'' \<rparr>"

text \<open>A day with 5000 steps, two meals, a good mood, no sleep recorded and the given water.\<close>

definition active_day :: "int \<Rightarrow> daily_data_row" where
  "active_day w = (empty_record 1 10)\<lparr> dd_steps := Some 5000, dd_water_ml := Some w,
     dd_breakfast := Some True, dd_lunch := Some True, dd_mood := Some ''good'' \<rparr>"

text \<open>A day with 20000 steps, six hours of sleep and a good mood.\<close>

definition rested_day :: daily_data_row where
  "rested_day = (empty_record 1 10)\<lparr> dd_steps := Some 20000, dd_sleep_hours := Some 6,
     dd_mood := Some ''good'' \<rparr>"

definition good_day :: daily_data_row where
  "good_day = (empty_record 1 10)\<lparr>dd_mood := Some ''good''\<rparr>"

text \<open>A day with an excellent mood and nothing else, as it is stored once it is scored.\<close>

definition excellent_day :: "int \<Rightarrow> daily_data_row" where
  "excellent_day d = (empty_record 1 d)\<lparr> dd_mood := Some ''excellent'',
     dd_mental_score := 25, dd_overall_balance := 25 \<rparr>"

text \<open>Day 11 was written first; now day 10, the day before, is written.\<close>

definition later_db :: database where
  "later_db = user_db 25 [good_day, excellent_day 11]"

text \<open>Day 3 was written first; now day 10, seven days later, is written.\<close>

definition earlier_db :: database where
  "earlier_db = user_db 25 [excellent_day 3, good_day]"

definition negative_day :: daily_data_row where
  "negative_day = (empty_record 1 10)\<lparr>dd_steps := Some (- 5000)\<rparr>"

definition terrible_day :: daily_data_row where
  "terrible_day = (empty_record 1 10)\<lparr>dd_mood := Some ''terrible''\<rparr>"

text \<open>Day 8 holds an empty record that was never scored; day 10 is written.\<close>

definition zero_db :: database where
  "zero_db = user_db 70 [empty_record 1 8, terrible_day]"

text \<open>User 1 with the given coins and energy level 99, and nothing else.\<close>

definition coins_db :: "int \<Rightarrow> database" where
  "coins_db coins = \<lparr> daily_data = [],
     users = [\<lparr>u_id = 1, u_sync_coins = coins, u_energy_level = 99\<rparr>],
     user_habits = [], habit_completions = [] \<rparr>"

text \<open>
  A database with habit 4 alone, completed on the given days, with the given stored
  streaks, and user 1 with 7 coins and energy level 99.
\<close>

definition habit_db :: "int list \<Rightarrow> int \<Rightarrow> int \<Rightarrow> database" where
  "habit_db days current longest = \<lparr> daily_data = [],
     users = [\<lparr>u_id = 1, u_sync_coins = 7, u_energy_level = 99\<rparr>,
              \<lparr>u_id = 2, u_sync_coins = 0, u_energy_level = 50\<rparr>],
     user_habits = [\<lparr>uh_id = 4, uh_current_streak = current, uh_longest_streak = longest\<rparr>],
     habit_completions =
       map (\<lambda>d. \<lparr>hc_habit_id = 4, hc_date = d, hc_is_completed = True\<rparr>) days \<rparr>"

text \<open>
  The habit was completed on days 93 to 97, which left both streaks at 5; day 98 was
  missed; the completion of day 99 has just been recorded.
\<close>

definition day_99_db :: database where
  "day_99_db = habit_db [93, 94, 95, 96, 97, 99] 5 5"

text \<open>The next day: the streaks are 1 and 5, and the completion of day 100 is recorded.\<close>

definition day_100_db :: database where
  "day_100_db = habit_db [93, 94, 95, 96, 97, 99, 100] 1 5"

section \<open>Properties\<close>

lemmas score_defs = overall_balance_def then_add_def py_min_def steps_score_def
  water_score_def sleep_score_def meals_score_def meals_count_def mood_score_def
  mood_scores_def

lemmas energy_defs = update_energy_level_def select_daily_facts_def is_day_def
  facts_of_row_def COALESCE_def UPDATE_def set_scores_def avg_energy_def in_window_def
  AVG_def new_energy_def

lemmas example_defs = user_db_def empty_record_def

subsection \<open>Python sums and stored values\<close>

lemma py_add_value: "py_add x y = Inr z \<Longrightarrow> py_value z = py_value x + py_value y"
  by (cases x; cases y) auto

lemma then_add_Inr:
  "then_add r y = Inr z \<Longrightarrow> \<exists>x. r = Inr x \<and> py_add x y = Inr z"
  by (cases r) (simp_all add: then_add_def)

lemma overall_balance_value:
  assumes "overall_balance data = Inr b"
  shows "py_value b = py_value (steps_score data) + py_value (water_score data)
    + py_value (sleep_score data) + py_value (meals_score data) + py_value (mood_score data)"
proof -
  from assms obtain x3 where x3:
    "then_add (then_add (py_add (steps_score data) (water_score data))
       (sleep_score data)) (meals_score data) = Inr x3"
    "py_add x3 (mood_score data) = Inr b"
    unfolding overall_balance_def by (blast dest: then_add_Inr)
  from x3(1) obtain x2 where x2:
    "then_add (py_add (steps_score data) (water_score data)) (sleep_score data) = Inr x2"
    "py_add x2 (meals_score data) = Inr x3"
    by (blast dest: then_add_Inr)
  from x2(1) obtain x1 where x1:
    "py_add (steps_score data) (water_score data) = Inr x1"
    "py_add x1 (sleep_score data) = Inr x2"
    by (blast dest: then_add_Inr)
  from py_add_value [OF x1(1)] py_add_value [OF x1(2)] py_add_value [OF x2(2)]
    py_add_value [OF x3(2)]
  show ?thesis by simp
qed

lemma steps_score_range: "0 \<le> py_value (steps_score d) \<and> py_value (steps_score d) \<le> 25"
  by (simp add: steps_score_def py_min_def)

lemma water_score_range: "0 \<le> py_value (water_score d) \<and> py_value (water_score d) \<le> 25"
  by (simp add: water_score_def py_min_def)

lemma sleep_score_range: "0 \<le> py_value (sleep_score d) \<and> py_value (sleep_score d) \<le> 25"
  by (simp add: sleep_score_def py_min_def)

lemma meals_score_range: "0 \<le> py_value (meals_score d) \<and> py_value (meals_score d) \<le> 25"
  by (simp add: meals_score_def meals_count_def)

lemma mood_score_range: "0 \<le> py_value (mood_score d) \<and> py_value (mood_score d) \<le> 25"
  by (simp add: mood_score_def mood_scores_def)

lemma overall_balance_range:
  assumes "overall_balance d = Inr b"
  shows "0 \<le> py_value b \<and> py_value b \<le> 125"
  using steps_score_range [of d] water_score_range [of d] sleep_score_range [of d]
    meals_score_range [of d] mood_score_range [of d]
  unfolding overall_balance_value [OF assms] by simp

text \<open>The sum raises nothing but \<^verbatim>\<open>TypeError\<close>.\<close>

lemma py_add_error: "py_add x y = Inl e \<Longrightarrow> e = TypeError"
  by (cases x; cases y) auto

lemma then_add_error: "then_add r y = Inl e \<Longrightarrow> r = Inl e \<or> e = TypeError"
  by (cases r) (auto simp: then_add_def dest: py_add_error)

lemma overall_balance_error: "overall_balance d = Inl e \<Longrightarrow> e = TypeError"
  unfolding overall_balance_def by (blast dest: then_add_error py_add_error)

lemma numeric_5_2_nonneg: "0 \<le> x \<Longrightarrow> 0 \<le> numeric_5_2 x"
  by (simp add: numeric_5_2_def)

lemma numeric_5_2_le:
  assumes "0 \<le> x" and "x \<le> of_int n"
  shows "numeric_5_2 x \<le> of_int n"
proof -
  from assms(2) have "x * 100 + 1 / 2 < of_int (n * 100 + 1)" by simp
  then have "\<lfloor>x * 100 + 1 / 2\<rfloor> < n * 100 + 1" by (simp only: floor_less_iff)
  then have "\<lfloor>x * 100 + 1 / 2\<rfloor> \<le> n * 100" by simp
  then have "(of_int \<lfloor>x * 100 + 1 / 2\<rfloor> :: rat) \<le> of_int (n * 100)"
    by (simp only: of_int_le_iff)
  with assms(1) show ?thesis by (simp add: numeric_5_2_def)
qed

lemma numeric_5_2_range:
  "0 \<le> x \<Longrightarrow> x \<le> 25 \<Longrightarrow> 0 \<le> numeric_5_2 x \<and> numeric_5_2 x \<le> 25"
  "0 \<le> x \<Longrightarrow> x \<le> 100 \<Longrightarrow> 0 \<le> numeric_5_2 x \<and> numeric_5_2 x \<le> 100"
  "0 \<le> x \<Longrightarrow> x \<le> 125 \<Longrightarrow> 0 \<le> numeric_5_2 x \<and> numeric_5_2 x \<le> 125"
  using numeric_5_2_le [of x 25] numeric_5_2_le [of x 100] numeric_5_2_le [of x 125]
  by (simp_all add: numeric_5_2_nonneg)

text \<open>The floor of a quotient of numerals, for the evaluation of stored values.\<close>

lemma floor_rat_numeral [simp]:
  "\<lfloor>(numeral a :: rat) / numeral b\<rfloor> = numeral a div numeral b"
  using floor_divide_of_int_eq [of "numeral a" "numeral b", where ?'a = rat] by simp

lemma floor_rat_one [simp]: "\<lfloor>(1 :: rat) / numeral b\<rfloor> = 1 div numeral b"
  using floor_divide_of_int_eq [of 1 "numeral b", where ?'a = rat] by simp

lemma numeric_5_2_values:
  "numeric_5_2 0 = 0" "numeric_5_2 50 = 50"
  "numeric_5_2 (50 / 3) = 1667 / 100" "numeric_5_2 (375 / 16) = 2344 / 100"
  "numeric_5_2 (1 / 400) = 0" "numeric_5_2 (1 / 200) = 1 / 100"
  by (simp_all add: numeric_5_2_def)

subsection \<open>Facts about the queries\<close>

lemma UPDATE_set:
  "r' \<in> set (UPDATE p f rows) \<Longrightarrow> \<exists>r\<in>set rows. r' = (if p r then f r else r)"
  by (auto simp: UPDATE_def)

lemma map_filter_UPDATE:
  assumes "\<And>r. p (f r) = p r"
  shows "map g (filter p (UPDATE p f rows)) = map (\<lambda>r. g (f r)) (filter p rows)"
  using assms by (induction rows) (simp_all add: UPDATE_def)

lemma is_day_set_scores [simp]: "is_day u d (set_scores data b r) = is_day u d r"
  by (simp add: is_day_def set_scores_def)

lemma select_daily_facts_row:
  assumes "select_daily_facts user_id date_str db = Some data"
  shows "\<exists>r\<in>set (daily_data db). is_day user_id date_str r \<and> data = facts_of_row r"
  using assms by (auto simp: select_daily_facts_def find_Some_iff)

text \<open>What \<^verbatim>\<open>update_energy_level\<close> writes when it returns and the day has a record.\<close>

lemma update_energy_level_Inr:
  assumes "select_daily_facts user_id date_str db = Some data"
    and "update_energy_level user_id date_str db = Inr db'"
  shows "\<exists>b. overall_balance data = Inr b
    \<and> daily_data db' =
        UPDATE (is_day user_id date_str) (set_scores data b) (daily_data db)
    \<and> users db' =
        UPDATE (\<lambda>u. u_id u = user_id)
          (\<lambda>u. u\<lparr>u_energy_level :=
             numeric_5_2 (new_energy (avg_energy user_id date_str (daily_data db')))\<rparr>)
          (users db)"
  using assms by (auto simp: update_energy_level_def Let_def split: sum.splits)

text \<open>It returns whenever the sum of the scores does.\<close>

lemma update_energy_level_completes:
  assumes "select_daily_facts user_id date_str db = Some data"
    and "overall_balance data = Inr b"
  shows "\<exists>db'. update_energy_level user_id date_str db = Inr db'"
  using assms by (simp add: update_energy_level_def Let_def)

lemma update_energy_level_error:
  assumes "update_energy_level user_id date_str db = Inl e"
  shows "e = TypeError"
  using assms overall_balance_error
  by (auto simp: update_energy_level_def Let_def split: option.splits sum.splits)

lemma sum_list_bounds:
  fixes xs :: "rat list"
  assumes "\<forall>x\<in>set xs. lo \<le> x \<and> x \<le> hi"
  shows "of_nat (length xs) * lo \<le> sum_list xs \<and> sum_list xs \<le> of_nat (length xs) * hi"
  using assms by (induction xs) (auto simp: algebra_simps)

lemma AVG_bounds:
  assumes "\<forall>x\<in>set xs. lo \<le> x \<and> x \<le> hi" and "AVG xs = Some a"
  shows "lo \<le> a \<and> a \<le> hi"
proof -
  from assms(2) have ne: "xs \<noteq> []" and a: "a = sum_list xs / of_nat (length xs)"
    by (auto simp: AVG_def split: if_splits)
  from ne have pos: "(0::rat) < of_nat (length xs)" by simp
  from sum_list_bounds [OF assms(1)] pos show ?thesis
    unfolding a by (simp add: pos_le_divide_eq pos_divide_le_eq mult.commute)
qed

lemma AVG_zero:
  assumes "xs \<noteq> []" and "\<forall>x\<in>set xs. x = 0"
  shows "AVG xs = Some 0"
proof -
  from assms(2) have "sum_list xs = 0" by (induction xs) auto
  with assms(1) show ?thesis by (simp add: AVG_def)
qed

subsection \<open>The streak\<close>

lemma streak_loop_takeWhile:
  "streak_loop d i cs n = n + length (takeWhile (\<lambda>(j, c). c = d - int j) (enumerate i cs))"
  by (induction cs arbitrary: i n) simp_all

lemma current_streak_le_length: "current_streak d cs \<le> length cs"
  unfolding current_streak_def streak_loop_takeWhile
  using length_takeWhile_le [of "\<lambda>(j, c). c = d - int j" "enumerate 0 cs"] by simp

lemma length_select_completions: "length (select_completions h db) \<le> 7"
  by (simp add: select_completions_def)

lemma day_99_streak: "current_streak 99 (select_completions 4 day_99_db) = 1"
  by (simp add: select_completions_def day_99_db_def habit_db_def current_streak_def)

lemma day_100_streak: "current_streak 100 (select_completions 4 day_100_db) = 2"
  by (simp add: select_completions_def day_100_db_def habit_db_def current_streak_def)

text \<open>
  C5. For every sequence of completion dates and every anchor date, the loop returns the
  number of leading positions \<open>i\<close> whose date is the anchor date minus \<open>i\<close>: it stops at
  the first date that differs, or at the end. The dates it is given are the seven most
  recent completed dates of the habit, so the streak written to the habit is at most 7.
  No completion gives 0; one completion on the anchor date gives 1.
\<close>

theorem C5_current_streak:
  "current_streak anchorDate completions = spec_computeStreak completions anchorDate
   \<and> select_completions habit_id db =
       take 7 (rev (sort (map hc_date
         (filter (\<lambda>c. hc_habit_id c = habit_id \<and> hc_is_completed c)
            (habit_completions db)))))
   \<and> current_streak anchorDate (select_completions habit_id db) \<le> 7
   \<and> map uh_current_streak (filter (\<lambda>h. uh_id h = habit_id)
         (user_habits (update_habit_streak habit_id anchorDate db)))
      = map (\<lambda>h. int (spec_computeStreak (select_completions habit_id db) anchorDate))
          (filter (\<lambda>h. uh_id h = habit_id) (user_habits db))
   \<and> current_streak anchorDate [] = 0
   \<and> current_streak anchorDate [anchorDate] = 1"
proof -
  have eq: "current_streak d cs = spec_computeStreak cs d" for d cs
    by (simp add: current_streak_def spec_computeStreak_def streak_loop_takeWhile)
  have le: "current_streak anchorDate (select_completions habit_id db) \<le> 7"
    using current_streak_le_length [of anchorDate "select_completions habit_id db"]
      length_select_completions [of habit_id db] by linarith
  have upd: "map uh_current_streak (filter (\<lambda>h. uh_id h = habit_id)
         (user_habits (update_habit_streak habit_id anchorDate db)))
      = map (\<lambda>h. int (spec_computeStreak (select_completions habit_id db) anchorDate))
          (filter (\<lambda>h. uh_id h = habit_id) (user_habits db))"
    by (induction "user_habits db")
       (simp_all add: update_habit_streak_def UPDATE_def set_streak_def eq filter_map comp_def)
  show ?thesis
    using eq le upd by (simp add: select_completions_def current_streak_def)
qed

text \<open>
  C6. \<^verbatim>\<open>update_habit_streak\<close> sets the current streak of the habit to the newly
  computed value and its longest streak to the maximum of the stored longest streak and
  that value. So no longest streak in the table decreases, and the habit's longest streak
  is at least its current streak afterwards. On day 99, after a missed day, the stored
  streaks 5 and 5 become 1 and 5: the current streak decreases, the longest does not. On
  day 100 the streaks 1 and 5 become 2 and 5.
\<close>

theorem C6_longest_streak_never_decreases:
  "user_habits (update_habit_streak habit_id date_str db) =
     map (\<lambda>h. if uh_id h = habit_id
               then h\<lparr> uh_current_streak :=
                          int (current_streak date_str (select_completions habit_id db)),
                        uh_longest_streak :=
                          max (uh_longest_streak h)
                            (int (current_streak date_str (select_completions habit_id db))) \<rparr>
               else h) (user_habits db)
   \<and> list_all2 (\<lambda>h h'. uh_longest_streak h \<le> uh_longest_streak h')
        (user_habits db) (user_habits (update_habit_streak habit_id date_str db))
   \<and> list_all (\<lambda>h'. uh_current_streak h' \<le> uh_longest_streak h')
        (filter (\<lambda>h'. uh_id h' = habit_id)
           (user_habits (update_habit_streak habit_id date_str db)))
   \<and> user_habits day_99_db = [\<lparr>uh_id = 4, uh_current_streak = 5, uh_longest_streak = 5\<rparr>]
   \<and> user_habits (update_habit_streak 4 99 day_99_db) =
        [\<lparr>uh_id = 4, uh_current_streak = 1, uh_longest_streak = 5\<rparr>]
   \<and> user_habits day_100_db = [\<lparr>uh_id = 4, uh_current_streak = 1, uh_longest_streak = 5\<rparr>]
   \<and> user_habits (update_habit_streak 4 100 day_100_db) =
        [\<lparr>uh_id = 4, uh_current_streak = 2, uh_longest_streak = 5\<rparr>]"
proof -
  have a: "list_all2 (\<lambda>h h'. uh_longest_streak h \<le> uh_longest_streak h')
        hs (UPDATE (\<lambda>h. uh_id h = habit_id) (set_streak c) hs)" for hs c
    by (induction hs) (simp_all add: UPDATE_def set_streak_def)
  have b: "list_all (\<lambda>h'. uh_current_streak h' \<le> uh_longest_streak h')
        (filter (\<lambda>h'. uh_id h' = habit_id)
           (UPDATE (\<lambda>h. uh_id h = habit_id) (set_streak c) hs))" for hs c
    by (induction hs) (simp_all add: UPDATE_def set_streak_def)
  have c: "user_habits (update_habit_streak 4 99 day_99_db) =
        [\<lparr>uh_id = 4, uh_current_streak = 1, uh_longest_streak = 5\<rparr>]"
    unfolding update_habit_streak_def day_99_streak
    by (simp add: UPDATE_def set_streak_def day_99_db_def habit_db_def)
  have d: "user_habits (update_habit_streak 4 100 day_100_db) =
        [\<lparr>uh_id = 4, uh_current_streak = 2, uh_longest_streak = 5\<rparr>]"
    unfolding update_habit_streak_def day_100_streak
    by (simp add: UPDATE_def set_streak_def day_100_db_def habit_db_def)
  have e: "user_habits day_99_db = [\<lparr>uh_id = 4, uh_current_streak = 5, uh_longest_streak = 5\<rparr>]"
    "user_habits day_100_db = [\<lparr>uh_id = 4, uh_current_streak = 1, uh_longest_streak = 5\<rparr>]"
    by (simp_all add: day_99_db_def day_100_db_def habit_db_def)
  show ?thesis
    using a b c d e
    by (simp add: update_habit_streak_def) (simp add: UPDATE_def set_streak_def)
qed

end
